theory Spec2Isabelle
  imports Main
begin

section \<open>The level simulation of GameScene.ts\<close>

text \<open>
  A shallow embedding of the simulation core of \<^verbatim>\<open>src/lib/game/GameScene.ts\<close> and of the
  types of \<^verbatim>\<open>src/lib/game/types.ts\<close> it reads. The scene's private fields are a record
  that every method takes and returns; tweens, sprites, camera effects and delays have no
  effect on these fields and are left out. Numbers are JavaScript numbers in the source;
  the levels hold integers and the simulation only adds, subtracts and compares them, so
  they are \<open>int\<close> here. The callback \<^verbatim>\<open>onComplete\<close> is modelled by a log of its calls.
\<close>

subsection \<open>types.ts\<close>

text \<open>
  The string unions are datatypes. Of each interface the fields that the simulation reads
  are kept; names, hints, hazards, star thresholds, sprites and the like are left out.
\<close>

text \<open>\<^verbatim>\<open>Position\<close>: the fields \<^verbatim>\<open>x\<close> and \<^verbatim>\<open>y\<close>.\<close>

record Position =
  posx :: int
  posy :: int

text \<open>\<^verbatim>\<open>Direction\<close> of types.ts and \<^verbatim>\<open>HeroDirection\<close> of GameScene.ts.\<close>

datatype Direction = Up | Down | Left | Right

datatype HeroDirection = North | East | South | West

datatype CellType = Floor | Wall | Water | Lava | Goal | Start

datatype CollectibleType = Gem | Coin | Key | Potion | Scroll | Sample | Rock

datatype GoalType = Reach_position | Collect_all | Collect_type | Defeat_enemies | Survive

record Collectible =
  collectible_id :: string
  collectible_type :: CollectibleType
  collectible_position :: Position

record Enemy =
  enemy_id :: string
  enemy_position :: Position
  enemy_health :: int
  enemy_damage :: int

record LevelGoal =
  goal_type :: GoalType
  target :: "Position option"
  count :: "int option"
  collectibleType :: "CollectibleType option"
  description :: string

record Level =
  grid :: "CellType list list"
  gridWidth :: int
  gridHeight :: int
  startPosition :: Position
  startDirection :: Direction
  goals :: "LevelGoal list"
  collectibles :: "Collectible list"
  level_enemies :: "Enemy list"
  maxExecutionSteps :: int

subsection \<open>The fields of the scene\<close>

text \<open>The value type of the \<^verbatim>\<open>enemies\<close> map (without the sprite).\<close>

record EnemyData =
  health :: int
  maxHealth :: int
  damage :: int
  position :: Position

text \<open>
  \<^verbatim>\<open>enemies\<close> is a JavaScript \<^verbatim>\<open>Map\<close>, iterated in insertion order of its keys: an
  association list with distinct keys. \<^verbatim>\<open>collectedIds\<close> and \<^verbatim>\<open>defeatedEnemies\<close> are
  \<^verbatim>\<open>Set\<close>s of which only membership and size are read. \<open>completions\<close> lists the calls
  of \<^verbatim>\<open>onComplete(success, message)\<close>, oldest first.
\<close>

record Scene =
  heroPosition :: Position
  heroDirection :: HeroDirection
  collectedIds :: "string set"
  isExecuting :: bool
  heroHealth :: int
  heroMaxHealth :: int
  heroDead :: bool
  enemies :: "(string \<times> EnemyData) list"
  defeatedEnemies :: "string set"
  completions :: "(bool \<times> string) list"

text \<open>\<^verbatim>\<open>Map.prototype.set\<close>: an existing key keeps its place and takes the new value.\<close>

fun mapSet :: "'k \<Rightarrow> 'v \<Rightarrow> ('k \<times> 'v) list \<Rightarrow> ('k \<times> 'v) list" where
  "mapSet k v [] = [(k, v)]"
| "mapSet k v ((k', v') # m) = (if k' = k then (k, v) # m else (k', v') # mapSet k v m)"

definition onComplete :: "bool \<Rightarrow> string \<Rightarrow> Scene \<Rightarrow> Scene" where
  "onComplete success message s = s\<lparr>completions := completions s @ [(success, message)]\<rparr>"

subsection \<open>Messages\<close>

text \<open>The emoji of the source's string literals, as their UTF-8 bytes.\<close>

definition cross_mark :: string where
  "cross_mark = [CHR 0xE2, CHR 0x9D, CHR 0x8C]"

definition check_mark :: string where
  "check_mark = [CHR 0xE2, CHR 0x9C, CHR 0x85]"

definition msg_quest_complete :: string where
  "msg_quest_complete = [CHR 0xF0, CHR 0x9F, CHR 0x8E, CHR 0x89] @ '' Quest Complete!''"

definition msg_hero_fallen :: string where
  "msg_hero_fallen = [CHR 0xF0, CHR 0x9F, CHR 0x92, CHR 0x80] @ '' Your hero has fallen! Try again.''"

text \<open>\<^verbatim>\<open>Array.prototype.join\<close>.\<close>

fun join :: "string \<Rightarrow> string list \<Rightarrow> string" where
  "join sep [] = []"
| "join sep [m] = m"
| "join sep (m # ms) = m @ sep @ join sep ms"

subsection \<open>Set-up and reset\<close>

fun directionFromType :: "Direction \<Rightarrow> HeroDirection" where
  "directionFromType Up = North"
| "directionFromType Down = South"
| "directionFromType Left = West"
| "directionFromType Right = East"

definition createEnemy :: "Enemy \<Rightarrow> (string \<times> EnemyData) list \<Rightarrow> (string \<times> EnemyData) list" where
  "createEnemy enemy m =
     mapSet (enemy_id enemy)
       \<lparr>health = enemy_health enemy, maxHealth = enemy_health enemy,
        damage = enemy_damage enemy, position = enemy_position enemy\<rparr> m"

definition drawEnemies :: "Level \<Rightarrow> (string \<times> EnemyData) list \<Rightarrow> (string \<times> EnemyData) list" where
  "drawEnemies L m = foldl (\<lambda>m enemy. createEnemy enemy m) m (level_enemies L)"

text \<open>The scene after \<^verbatim>\<open>init(data)\<close> and \<^verbatim>\<open>create()\<close>.\<close>

definition init :: "Level \<Rightarrow> Scene" where
  "init L =
     \<lparr>heroPosition = startPosition L,
      heroDirection = directionFromType (startDirection L),
      collectedIds = {},
      isExecuting = False,
      heroHealth = 100,
      heroMaxHealth = 100,
      heroDead = False,
      enemies = drawEnemies L [],
      defeatedEnemies = {},
      completions = []\<rparr>"

text \<open>\<^verbatim>\<open>initialState\<close> holds the level's start position and direction.\<close>

definition resetGame :: "Level \<Rightarrow> Scene \<Rightarrow> Scene" where
  "resetGame L s =
     s\<lparr>heroPosition := startPosition L,
       heroDirection := directionFromType (startDirection L),
       collectedIds := {},
       heroHealth := 100,
       heroMaxHealth := 100,
       heroDead := False,
       defeatedEnemies := {},
       enemies := drawEnemies L [],
       isExecuting := False\<rparr>"

subsection \<open>Movement\<close>

fun deltas :: "HeroDirection \<Rightarrow> Position" where
  "deltas North = \<lparr>posx = 0, posy = - 1\<rparr>"
| "deltas East = \<lparr>posx = 1, posy = 0\<rparr>"
| "deltas South = \<lparr>posx = 0, posy = 1\<rparr>"
| "deltas West = \<lparr>posx = - 1, posy = 0\<rparr>"

definition getPositionInDirection :: "Position \<Rightarrow> HeroDirection \<Rightarrow> int \<Rightarrow> Position" where
  "getPositionInDirection pos dir steps =
     (let d = deltas dir
      in \<lparr>posx = posx pos + posx d * steps, posy = posy pos + posy d * steps\<rparr>)"

text \<open>\<^verbatim>\<open>grid[pos.y]?.[pos.x]?.type\<close>: undefined outside the arrays.\<close>

definition cellTypeAt :: "CellType list list \<Rightarrow> Position \<Rightarrow> CellType option" where
  "cellTypeAt g pos =
     (if 0 \<le> posy pos \<and> posy pos < int (length g) then
        (let row = g ! nat (posy pos)
         in if 0 \<le> posx pos \<and> posx pos < int (length row)
            then Some (row ! nat (posx pos)) else None)
      else None)"

text \<open>The test of the three loops over \<^verbatim>\<open>enemies\<close>: a live enemy at \<open>pos\<close>.\<close>

definition liveAt :: "Position \<Rightarrow> string \<times> EnemyData \<Rightarrow> bool" where
  "liveAt pos e =
     (posx (position (snd e)) = posx pos \<and> posy (position (snd e)) = posy pos
      \<and> health (snd e) > 0)"

definition isValidPosition :: "Level \<Rightarrow> Scene \<Rightarrow> Position \<Rightarrow> bool" where
  "isValidPosition L s pos =
     (if posx pos < 0 \<or> posx pos \<ge> gridWidth L then False
      else if posy pos < 0 \<or> posy pos \<ge> gridHeight L then False
      else if cellTypeAt (grid L) pos = Some Wall then False
      else if list_ex (liveAt pos) (enemies s) then False
      else True)"

subsection \<open>Enemy attacks\<close>

definition handleHeroDeath :: "Scene \<Rightarrow> Scene" where
  "handleHeroDeath s = onComplete False msg_hero_fallen (s\<lparr>heroDead := True, isExecuting := False\<rparr>)"

definition performEnemyAttack :: "string \<Rightarrow> EnemyData \<Rightarrow> Scene \<Rightarrow> Scene" where
  "performEnemyAttack enemyId enemyData s =
     (let s1 = s\<lparr>heroHealth := heroHealth s - damage enemyData\<rparr>
      in if heroHealth s1 \<le> 0 then handleHeroDeath s1 else s1)"

text \<open>The inner loop of \<^verbatim>\<open>getAdjacentEnemies\<close>, pushing onto the result array.\<close>

fun pushAdjacent :: "Position \<Rightarrow> (string \<times> EnemyData) list \<Rightarrow> (string \<times> EnemyData) list
    \<Rightarrow> (string \<times> EnemyData) list" where
  "pushAdjacent adjacentPos [] adjacentEnemies = adjacentEnemies"
| "pushAdjacent adjacentPos (e # es) adjacentEnemies =
     (if liveAt adjacentPos e then pushAdjacent adjacentPos es (adjacentEnemies @ [e])
      else pushAdjacent adjacentPos es adjacentEnemies)"

text \<open>The outer loop over the directions.\<close>

fun adjacentLoop :: "Scene \<Rightarrow> HeroDirection list \<Rightarrow> (string \<times> EnemyData) list
    \<Rightarrow> (string \<times> EnemyData) list" where
  "adjacentLoop s [] adjacentEnemies = adjacentEnemies"
| "adjacentLoop s (dir # dirs) adjacentEnemies =
     adjacentLoop s dirs
       (pushAdjacent (getPositionInDirection (heroPosition s) dir 1) (enemies s) adjacentEnemies)"

definition getAdjacentEnemies :: "Scene \<Rightarrow> (string \<times> EnemyData) list" where
  "getAdjacentEnemies s = adjacentLoop s [North, East, South, West] []"

text \<open>
  The \<^verbatim>\<open>for\<close> loop of \<^verbatim>\<open>checkAdjacentEnemies\<close>: one pass, left by \<^verbatim>\<open>break\<close> once the
  hero's health is not positive.
\<close>

fun attackPass :: "(string \<times> EnemyData) list \<Rightarrow> Scene \<Rightarrow> Scene" where
  "attackPass [] s = s"
| "attackPass (enemy # rest) s =
     (if heroHealth s \<le> 0 then s
      else attackPass rest (performEnemyAttack (fst enemy) (snd enemy) s))"

text \<open>
  The \<^verbatim>\<open>while\<close> loop of \<^verbatim>\<open>checkAdjacentEnemies\<close>. Nothing bounds its passes, so the
  result is an option: \<open>None\<close> is a loop that never ends.
\<close>

partial_function (option) checkAdjacentEnemies :: "Scene \<Rightarrow> Scene option" where
  "checkAdjacentEnemies s =
     (if heroHealth s > 0 \<and> \<not> heroDead s then
        (let adjacentEnemies = getAdjacentEnemies s
         in if adjacentEnemies = [] then Some s
            else (let s' = attackPass adjacentEnemies s
                  in if heroHealth s' \<le> 0 then Some s' else checkAdjacentEnemies s'))
      else Some s)"

definition moveHero :: "Level \<Rightarrow> int \<Rightarrow> Scene \<Rightarrow> (Scene \<times> bool) option" where
  "moveHero L steps s =
     (let newPos = getPositionInDirection (heroPosition s) (heroDirection s) steps
      in if \<not> isValidPosition L s newPos then Some (s, False)
         else map_option (\<lambda>s'. (s', True)) (checkAdjacentEnemies (s\<lparr>heroPosition := newPos\<rparr>)))"

subsection \<open>Turning, collecting, attacking\<close>

datatype Turn = TurnLeft | TurnRight

fun turns :: "HeroDirection \<Rightarrow> Turn \<Rightarrow> HeroDirection" where
  "turns North TurnLeft = West"
| "turns North TurnRight = East"
| "turns East TurnLeft = North"
| "turns East TurnRight = South"
| "turns South TurnLeft = East"
| "turns South TurnRight = West"
| "turns West TurnLeft = South"
| "turns West TurnRight = North"

definition turnHero :: "Turn \<Rightarrow> Scene \<Rightarrow> Scene" where
  "turnHero direction s = s\<lparr>heroDirection := turns (heroDirection s) direction\<rparr>"

text \<open>The predicate given to \<^verbatim>\<open>collectibles.find\<close>.\<close>

definition collectable :: "Scene \<Rightarrow> Collectible \<Rightarrow> bool" where
  "collectable s c =
     (posx (collectible_position c) = posx (heroPosition s)
      \<and> posy (collectible_position c) = posy (heroPosition s)
      \<and> collectible_id c \<notin> collectedIds s)"

definition collectGem :: "Level \<Rightarrow> Scene \<Rightarrow> Scene \<times> bool" where
  "collectGem L s =
     (case find (collectable s) (collectibles L) of
        None \<Rightarrow> (s, False)
      | Some collectible \<Rightarrow>
          (s\<lparr>collectedIds := insert (collectible_id collectible) (collectedIds s)\<rparr>, True))"

definition getEnemyAhead :: "Scene \<Rightarrow> (string \<times> EnemyData) option" where
  "getEnemyAhead s =
     find (liveAt (getPositionInDirection (heroPosition s) (heroDirection s) 1)) (enemies s)"

text \<open>
  \<^verbatim>\<open>data\<close> is the object held by the map, so \<^verbatim>\<open>data.health -= attackDamage\<close> changes the
  entry of \<^verbatim>\<open>id\<close>. The counter-attack branch subtracts from \<^verbatim>\<open>heroHealth\<close> and returns:
  it does not call \<^verbatim>\<open>handleHeroDeath\<close>.
\<close>

definition attackEnemy :: "Scene \<Rightarrow> Scene" where
  "attackEnemy s =
     (case getEnemyAhead s of
        None \<Rightarrow> s
      | Some (enemyId, data) \<Rightarrow>
          (let attackDamage = 20;
               data' = data\<lparr>health := health data - attackDamage\<rparr>;
               s1 = s\<lparr>enemies := mapSet enemyId data' (enemies s)\<rparr>
           in if health data' \<le> 0
              then s1\<lparr>defeatedEnemies := insert enemyId (defeatedEnemies s1)\<rparr>
              else s1\<lparr>heroHealth := heroHealth s1 - damage data'\<rparr>))"

subsection \<open>Goals\<close>

text \<open>
  The \<^verbatim>\<open>switch\<close> of \<^verbatim>\<open>checkWinCondition\<close>. \<^verbatim>\<open>goalMet\<close> starts as false and the switch has
  no case for \<^verbatim>\<open>'survive'\<close>. \<^verbatim>\<open>goal.count || 1\<close> is 1 for a missing or zero count.
\<close>

definition goalMet :: "Level \<Rightarrow> Scene \<Rightarrow> LevelGoal \<Rightarrow> bool" where
  "goalMet L s goal =
     (case goal_type goal of
        Reach_position \<Rightarrow>
          (case target goal of
             None \<Rightarrow> False
           | Some t \<Rightarrow> posx (heroPosition s) = posx t \<and> posy (heroPosition s) = posy t)
      | Collect_all \<Rightarrow> int (card (collectedIds s)) = int (length (collectibles L))
      | Collect_type \<Rightarrow>
          (let collected = filter (\<lambda>c. Some (collectible_type c) = collectibleType goal
                                      \<and> collectible_id c \<in> collectedIds s) (collectibles L)
           in int (length collected)
                \<ge> (case count goal of None \<Rightarrow> 1 | Some n \<Rightarrow> if n = 0 then 1 else n))
      | Defeat_enemies \<Rightarrow> int (card (defeatedEnemies s)) = int (length (level_enemies L))
      | Survive \<Rightarrow> False)"

text \<open>The loop over the goals, with its two variables \<^verbatim>\<open>allGoalsMet\<close> and \<^verbatim>\<open>messages\<close>.\<close>

fun goalLoop :: "Level \<Rightarrow> Scene \<Rightarrow> LevelGoal list \<Rightarrow> bool \<times> string list \<Rightarrow> bool \<times> string list" where
  "goalLoop L s [] acc = acc"
| "goalLoop L s (goal # rest) (allGoalsMet, messages) =
     (if \<not> goalMet L s goal
      then goalLoop L s rest (False, messages @ [cross_mark @ '' '' @ description goal])
      else goalLoop L s rest (allGoalsMet, messages @ [check_mark @ '' '' @ description goal]))"

definition checkWinCondition :: "Level \<Rightarrow> Scene \<Rightarrow> Scene" where
  "checkWinCondition L s =
     (case goalLoop L s (goals L) (True, []) of
        (allGoalsMet, messages) \<Rightarrow>
          if allGoalsMet then onComplete True msg_quest_complete s
          else onComplete False (''Quest incomplete:'' @ [CHR 0x0A] @ join [CHR 0x0A] messages) s)"

subsection \<open>The interpreter\<close>

text \<open>\<^verbatim>\<open>GameCommand\<close> values are strings at run time; the \<^verbatim>\<open>switch\<close> has no default.\<close>

definition executeCommand :: "Level \<Rightarrow> string \<Rightarrow> Scene \<Rightarrow> Scene option" where
  "executeCommand L command s =
     (if command = ''move_forward'' then map_option fst (moveHero L 1 s)
      else if command = ''move_backward'' then map_option fst (moveHero L (- 1) s)
      else if command = ''turn_left'' then Some (turnHero TurnLeft s)
      else if command = ''turn_right'' then Some (turnHero TurnRight s)
      else if command = ''collect_sample'' then Some (fst (collectGem L s))
      else if command = ''attack'' then Some (attackEnemy s)
      else Some s)"

text \<open>
  The \<^verbatim>\<open>for\<close> loop of \<^verbatim>\<open>executeCommands\<close> and the code after it. A dead hero ends the
  loop by \<^verbatim>\<open>return\<close>; after the last command the goals are checked unless \<^verbatim>\<open>heroDead\<close>.
\<close>

fun commandLoop :: "Level \<Rightarrow> string list \<Rightarrow> Scene \<Rightarrow> Scene option" where
  "commandLoop L [] s =
     Some (if \<not> heroDead s then checkWinCondition L (s\<lparr>isExecuting := False\<rparr>) else s)"
| "commandLoop L (command # rest) s =
     (if heroDead s \<or> heroHealth s \<le> 0 then Some (s\<lparr>isExecuting := False\<rparr>)
      else Option.bind (executeCommand L command s) (commandLoop L rest))"

definition executeCommands :: "Level \<Rightarrow> string list \<Rightarrow> Scene \<Rightarrow> Scene option" where
  "executeCommands L commands s =
     (if isExecuting s then Some s
      else commandLoop L commands ((resetGame L s)\<lparr>isExecuting := True\<rparr>))"

subsection \<open>Levels of the repository\<close>

text \<open>Level 1-1, First Steps on Mars: a 5 by 3 grid, the goal at (3, 1).\<close>

definition level_1_1 :: Level where
  "level_1_1 =
     \<lparr>grid = [[Floor, Floor, Floor, Floor, Floor], [Start, Floor, Floor, Goal, Floor],
              [Floor, Floor, Floor, Floor, Floor]],
      gridWidth = 5, gridHeight = 3,
      startPosition = \<lparr>posx = 0, posy = 1\<rparr>,
      startDirection = Right,
      goals = [\<lparr>goal_type = Reach_position, target = Some \<lparr>posx = 3, posy = 1\<rparr>, count = None,
                 collectibleType = None, description = ''Reach the landing beacon''\<rparr>],
      collectibles = [],
      level_enemies = [],
      maxExecutionSteps = 50\<rparr>"

text \<open>Level 1-2, Navigate Around: a 5 by 5 grid with a wall at x = 2 for y = 1, 2, 3.\<close>

definition level_1_2 :: Level where
  "level_1_2 =
     \<lparr>grid = [[Floor, Floor, Floor, Floor, Floor], [Floor, Floor, Wall, Floor, Floor],
              [Start, Floor, Wall, Floor, Goal], [Floor, Floor, Wall, Floor, Floor],
              [Floor, Floor, Floor, Floor, Floor]],
      gridWidth = 5, gridHeight = 5,
      startPosition = \<lparr>posx = 0, posy = 2\<rparr>,
      startDirection = Right,
      goals = [\<lparr>goal_type = Reach_position, target = Some \<lparr>posx = 4, posy = 2\<rparr>, count = None,
                 collectibleType = None, description = ''Reach the goal without crashing''\<rparr>],
      collectibles = [],
      level_enemies = [],
      maxExecutionSteps = 100\<rparr>"

text \<open>Level 1-3, Collect Sample: a 6 by 3 grid with one sample at (3, 1).\<close>

definition level_1_3 :: Level where
  "level_1_3 =
     \<lparr>grid = [[Floor, Floor, Floor, Floor, Floor, Floor], [Start, Floor, Floor, Floor, Floor, Floor],
              [Floor, Floor, Floor, Floor, Floor, Floor]],
      gridWidth = 6, gridHeight = 3,
      startPosition = \<lparr>posx = 0, posy = 1\<rparr>,
      startDirection = Right,
      goals = [\<lparr>goal_type = Collect_all, target = None, count = None,
                 collectibleType = None, description = ''Collect the rock sample''\<rparr>,
               \<lparr>goal_type = Reach_position, target = Some \<lparr>posx = 0, posy = 1\<rparr>, count = None,
                 collectibleType = None, description = ''Return to base station''\<rparr>],
      collectibles = [\<lparr>collectible_id = ''sample-1'', collectible_type = Sample,
                        collectible_position = \<lparr>posx = 3, posy = 1\<rparr>\<rparr>],
      level_enemies = [],
      maxExecutionSteps = 100\<rparr>"

text \<open>
  Level 2-1, The Orc Guard, of the level definitions: a grid of 4 by 3 floor cells with the
  start at (0, 1) and the goal at (3, 1), one orc of health 40 and damage 10 at (2, 1). Its
  \<^verbatim>\<open>solutionCode\<close> is \<^verbatim>\<open>move_forward() attack() attack() move_forward()\<close>.
\<close>

definition level_2_1 :: Level where
  "level_2_1 =
     \<lparr>grid = [[Floor, Floor, Floor, Floor], [Start, Floor, Floor, Goal], [Floor, Floor, Floor, Floor]],
      gridWidth = 4, gridHeight = 3,
      startPosition = \<lparr>posx = 0, posy = 1\<rparr>,
      startDirection = Right,
      goals = [\<lparr>goal_type = Defeat_enemies, target = None, count = None, collectibleType = None,
                 description = ''Defeat the orc''\<rparr>,
               \<lparr>goal_type = Reach_position, target = Some \<lparr>posx = 3, posy = 1\<rparr>, count = None,
                 collectibleType = None, description = ''Reach the goal''\<rparr>],
      collectibles = [],
      level_enemies = [\<lparr>enemy_id = ''orc1'', enemy_position = \<lparr>posx = 2, posy = 1\<rparr>,
                         enemy_health = 40, enemy_damage = 10\<rparr>],
      maxExecutionSteps = 50\<rparr>"

text \<open>
  Level inputs that are not in the repository: a goal of type \<^verbatim>\<open>survive\<close>, and the layout of
  level 2-2 with the hero starting next to an ogre of damage 100.
\<close>

definition survive_goal :: LevelGoal where
  "survive_goal = \<lparr>goal_type = Survive, target = None, count = None, collectibleType = None,
      description = ''Survive''\<rparr>"

definition ogre_level :: Level where
  "ogre_level =
     \<lparr>grid = [[Floor, Floor, Floor, Floor], [Start, Floor, Floor, Goal], [Floor, Floor, Floor, Floor]],
      gridWidth = 4, gridHeight = 3,
      startPosition = \<lparr>posx = 1, posy = 1\<rparr>,
      startDirection = Right,
      goals = [\<lparr>goal_type = Defeat_enemies, target = None, count = None, collectibleType = None,
                 description = ''Defeat the mighty ogre''\<rparr>,
               \<lparr>goal_type = Reach_position, target = Some \<lparr>posx = 3, posy = 1\<rparr>, count = None,
                 collectibleType = None, description = ''Reach the goal''\<rparr>],
      collectibles = [],
      level_enemies = [\<lparr>enemy_id = ''ogre1'', enemy_position = \<lparr>posx = 2, posy = 1\<rparr>,
                         enemy_health = 60, enemy_damage = 100\<rparr>],
      maxExecutionSteps = 50\<rparr>"

subsection \<open>The movement rule in the words of the specification\<close>

text \<open>
  The target cell is the current position plus the unit delta of the direction times the
  steps. A move is to be rejected when the target is outside the grid, is a wall cell, or
  holds a live enemy.
\<close>

definition moveTarget :: "Scene \<Rightarrow> int \<Rightarrow> Position" where
  "moveTarget s steps =
     \<lparr>posx = posx (heroPosition s) + posx (deltas (heroDirection s)) * steps,
      posy = posy (heroPosition s) + posy (deltas (heroDirection s)) * steps\<rparr>"

definition moveBlocked :: "Level \<Rightarrow> Scene \<Rightarrow> Position \<Rightarrow> bool" where
  "moveBlocked L s pos =
     ((posx pos < 0 \<or> gridWidth L \<le> posx pos \<or> posy pos < 0 \<or> gridHeight L \<le> posy pos)
      \<or> cellTypeAt (grid L) pos = Some Wall
      \<or> (\<exists>e\<in>set (enemies s). position (snd e) = pos \<and> 0 < health (snd e)))"

text \<open>
  The position invariant: the hero is inside the grid, not on a wall cell and not on the
  cell of a live enemy.
\<close>

definition validHeroPosition :: "Level \<Rightarrow> Scene \<Rightarrow> bool" where
  "validHeroPosition L s =
     (0 \<le> posx (heroPosition s) \<and> posx (heroPosition s) < gridWidth L
      \<and> 0 \<le> posy (heroPosition s) \<and> posy (heroPosition s) < gridHeight L
      \<and> cellTypeAt (grid L) (heroPosition s) \<noteq> Some Wall
      \<and> list_all (\<lambda>e. \<not> (position (snd e) = heroPosition s \<and> 0 < health (snd e))) (enemies s))"

subsection \<open>The adjacency order in the words of the specification\<close>

text \<open>
  The live orthogonally adjacent enemies, in the order in which the enemy collection stores
  them.
\<close>

definition orthogonallyAdjacent :: "Position \<Rightarrow> Position \<Rightarrow> bool" where
  "orthogonallyAdjacent p q = (\<bar>posx q - posx p\<bar> + \<bar>posy q - posy p\<bar> = 1)"

definition adjacentInStoredOrder :: "Scene \<Rightarrow> (string \<times> EnemyData) list" where
  "adjacentInStoredOrder s =
     filter (\<lambda>e. 0 < health (snd e) \<and> orthogonallyAdjacent (heroPosition s) (position (snd e)))
       (enemies s)"

subsection \<open>The identifiers of a level's collectibles\<close>


subsection \<open>Execution in order, without a step limit\<close>





subsection \<open>The commands of the interpreter\<close>

text \<open>The case labels of the \<^verbatim>\<open>switch\<close> in \<^verbatim>\<open>executeCommand\<close>.\<close>

definition knownCommands :: "string list" where
  "knownCommands = [''move_forward'', ''move_backward'', ''turn_left'', ''turn_right'',
     ''collect_sample'', ''attack'']"

subsection \<open>Scenes used as concrete inputs\<close>

text \<open>
  The hero at (1, 1) with health 100 and the given enemies in the map.
\<close>

definition sceneWith :: "(string \<times> EnemyData) list \<Rightarrow> Scene" where
  "sceneWith es =
     \<lparr>heroPosition = \<lparr>posx = 1, posy = 1\<rparr>, heroDirection = North, collectedIds = {},
      isExecuting = True, heroHealth = 100, heroMaxHealth = 100, heroDead = False,
      enemies = es, defeatedEnemies = {}, completions = []\<rparr>"


definition enemyAt :: "int \<Rightarrow> int \<Rightarrow> int \<Rightarrow> EnemyData" where
  "enemyAt ex ey dmg = \<lparr>health = 20, maxHealth = 20, damage = dmg, position = \<lparr>posx = ex, posy = ey\<rparr>\<rparr>"

text \<open>
  An enemy of damage 100 to the west, stored first, and one of damage 10 to the north,
  stored second.
\<close>

definition twoEnemies :: Scene where
  "twoEnemies = sceneWith [(''a'', enemyAt 0 1 100), (''b'', enemyAt 1 0 10)]"


text \<open>
  The states in which the adjacency loop cannot make progress: the hero is alive, some live
  enemy is adjacent, and no adjacent live enemy does any damage.
\<close>

definition stuck :: "Scene \<Rightarrow> bool" where
  "stuck s = (0 < heroHealth s \<and> \<not> heroDead s \<and> getAdjacentEnemies s \<noteq> []
     \<and> list_all (\<lambda>e. damage (snd e) = 0) (getAdjacentEnemies s))"


section \<open>Evaluation\<close>

text \<open>The defining equations used to run the model on concrete inputs.\<close>

named_theorems run_defs

lemmas [run_defs] = init_def executeCommands_def resetGame_def drawEnemies_def createEnemy_def
  executeCommand_def moveHero_def getPositionInDirection_def isValidPosition_def cellTypeAt_def
  liveAt_def checkAdjacentEnemies.simps getAdjacentEnemies_def performEnemyAttack_def
  handleHeroDeath_def onComplete_def attackEnemy_def getEnemyAhead_def collectGem_def
  collectable_def turnHero_def checkWinCondition_def goalMet_def Let_def

section \<open>The adjacency check\<close>

lemma pushAdjacent_filter:
  "pushAdjacent p es acc = acc @ filter (liveAt p) es"
  by (induction es arbitrary: acc) simp_all

lemma adjacentLoop_concat:
  "adjacentLoop s dirs acc =
     acc @ concat (map (\<lambda>dir. filter (liveAt (getPositionInDirection (heroPosition s) dir 1)) (enemies s)) dirs)"
  by (induction dirs arbitrary: acc) (simp_all add: pushAdjacent_filter)

lemma getAdjacentEnemies_concat:
  "getAdjacentEnemies s =
     concat (map (\<lambda>dir. filter (liveAt (getPositionInDirection (heroPosition s) dir 1)) (enemies s))
       [North, East, South, West])"
  by (simp add: getAdjacentEnemies_def adjacentLoop_concat)

lemma getAdjacentEnemies_cong:
  "heroPosition s' = heroPosition s \<Longrightarrow> enemies s' = enemies s
   \<Longrightarrow> getAdjacentEnemies s' = getAdjacentEnemies s"
  by (simp add: getAdjacentEnemies_concat)

lemma performEnemyAttack_frame:
  "heroPosition (performEnemyAttack i d s) = heroPosition s"
  "heroDirection (performEnemyAttack i d s) = heroDirection s"
  "enemies (performEnemyAttack i d s) = enemies s"
  "collectedIds (performEnemyAttack i d s) = collectedIds s"
  "defeatedEnemies (performEnemyAttack i d s) = defeatedEnemies s"
  "heroHealth (performEnemyAttack i d s) = heroHealth s - damage d"
  by (simp_all add: performEnemyAttack_def handleHeroDeath_def onComplete_def Let_def)

lemma attackPass_frame:
  "heroPosition (attackPass es s) = heroPosition s"
  "heroDirection (attackPass es s) = heroDirection s"
  "enemies (attackPass es s) = enemies s"
  "collectedIds (attackPass es s) = collectedIds s"
  "defeatedEnemies (attackPass es s) = defeatedEnemies s"
  by (induction es arbitrary: s) (simp_all add: performEnemyAttack_frame)

lemma getAdjacentEnemies_attackPass:
  "getAdjacentEnemies (attackPass es s) = getAdjacentEnemies s"
  by (rule getAdjacentEnemies_cong) (simp_all add: attackPass_frame)

lemma attackPass_health_le:
  "\<forall>e\<in>set es. 0 \<le> damage (snd e) \<Longrightarrow> heroHealth (attackPass es s) \<le> heroHealth s"
proof (induction es arbitrary: s)
  case Nil
  then show ?case by simp
next
  case (Cons e es)
  have "heroHealth (attackPass es (performEnemyAttack (fst e) (snd e) s))
          \<le> heroHealth (performEnemyAttack (fst e) (snd e) s)"
    using Cons.prems by (intro Cons.IH) simp
  with Cons.prems show ?case by (simp add: performEnemyAttack_frame)
qed

lemma attackPass_health_less:
  "\<forall>e\<in>set es. 0 \<le> damage (snd e) \<Longrightarrow> \<exists>e\<in>set es. 1 \<le> damage (snd e) \<Longrightarrow> 0 < heroHealth s
   \<Longrightarrow> heroHealth (attackPass es s) < heroHealth s"
proof (induction es arbitrary: s)
  case Nil
  then show ?case by simp
next
  case (Cons e es)
  let ?s1 = "performEnemyAttack (fst e) (snd e) s"
  have le1: "heroHealth ?s1 \<le> heroHealth s"
    using Cons.prems(1) by (simp add: performEnemyAttack_frame)
  have rest_le: "heroHealth (attackPass es ?s1) \<le> heroHealth ?s1"
    using Cons.prems(1) by (intro attackPass_health_le) simp
  show ?case
  proof (cases "1 \<le> damage (snd e)")
    case True
    then have "heroHealth ?s1 < heroHealth s" by (simp add: performEnemyAttack_frame)
    with rest_le Cons.prems(3) show ?thesis by simp
  next
    case False
    with Cons.prems(2) have ex: "\<exists>e\<in>set es. 1 \<le> damage (snd e)" by auto
    show ?thesis
    proof (cases "0 < heroHealth ?s1")
      case True
      have "heroHealth (attackPass es ?s1) < heroHealth ?s1"
        using Cons.prems(1) ex True by (intro Cons.IH) simp_all
      with le1 Cons.prems(3) show ?thesis by simp
    next
      case False
      with rest_le Cons.prems(3) show ?thesis by simp
    qed
  qed
qed

lemma checkAdjacentEnemies_terminates:
  assumes "\<forall>e\<in>set (getAdjacentEnemies s). 0 \<le> damage (snd e)"
      and "getAdjacentEnemies s = [] \<or> (\<exists>e\<in>set (getAdjacentEnemies s). 1 \<le> damage (snd e))"
  shows "\<exists>s'. checkAdjacentEnemies s = Some s'"
  using assms
proof (induction "nat (heroHealth s)" arbitrary: s rule: less_induct)
  case less
  let ?adj = "getAdjacentEnemies s"
  let ?s' = "attackPass ?adj s"
  show ?case
  proof (cases "0 < heroHealth s \<and> \<not> heroDead s \<and> ?adj \<noteq> [] \<and> 0 < heroHealth ?s'")
    case False
    then show ?thesis
      by (subst checkAdjacentEnemies.simps) (auto simp: Let_def)
  next
    case True
    with less.prems have ex: "\<exists>e\<in>set ?adj. 1 \<le> damage (snd e)" by simp
    have "heroHealth ?s' < heroHealth s"
      using less.prems(1) ex True by (intro attackPass_health_less) simp_all
    with True have "nat (heroHealth ?s') < nat (heroHealth s)" by simp
    moreover have "getAdjacentEnemies ?s' = ?adj" by (rule getAdjacentEnemies_attackPass)
    ultimately have "\<exists>s''. checkAdjacentEnemies ?s' = Some s''"
      using less.prems by (intro less.hyps) simp_all
    moreover have "checkAdjacentEnemies s = checkAdjacentEnemies ?s'"
      using True by (subst checkAdjacentEnemies.simps) (simp add: Let_def)
    ultimately show ?thesis by simp
  qed
qed

lemma attackPass_zero:
  "\<forall>e\<in>set es. damage (snd e) = 0 \<Longrightarrow> 0 < heroHealth s \<Longrightarrow> attackPass es s = s"
  by (induction es) (simp_all add: performEnemyAttack_def Let_def)

lemma checkAdjacentEnemies_not_stuck:
  assumes "checkAdjacentEnemies s = Some s'"
  shows "\<not> stuck s"
proof (rule checkAdjacentEnemies.raw_induct [where P = "\<lambda>s _. \<not> stuck s", OF _ assms])
  fix check :: "Scene \<Rightarrow> Scene option" and t t'
  assume IH: "\<And>x y. check x = Some y \<Longrightarrow> \<not> stuck x"
    and step: "(if 0 < heroHealth t \<and> \<not> heroDead t then
        (let adjacentEnemies = getAdjacentEnemies t
         in if adjacentEnemies = [] then Some t
            else (let s' = attackPass adjacentEnemies t
                  in if heroHealth s' \<le> 0 then Some s' else check s'))
      else Some t) = Some t'"
  show "\<not> stuck t"
  proof
    assume st: "stuck t"
    then have "attackPass (getAdjacentEnemies t) t = t"
      by (intro attackPass_zero) (simp_all add: stuck_def list_all_iff)
    with st step have "check t = Some t'"
      by (simp add: stuck_def Let_def)
    from IH [OF this] st show False by simp
  qed
qed

lemma checkAdjacentEnemies_frame:
  assumes "checkAdjacentEnemies s = Some s'"
  shows "heroPosition s' = heroPosition s \<and> heroDirection s' = heroDirection s \<and> enemies s' = enemies s
     \<and> collectedIds s' = collectedIds s \<and> defeatedEnemies s' = defeatedEnemies s"
proof (rule checkAdjacentEnemies.raw_induct [where P = "\<lambda>s s'. heroPosition s' = heroPosition s
     \<and> heroDirection s' = heroDirection s \<and> enemies s' = enemies s
     \<and> collectedIds s' = collectedIds s \<and> defeatedEnemies s' = defeatedEnemies s", OF _ assms])
  fix check :: "Scene \<Rightarrow> Scene option" and t t'
  assume IH: "\<And>x y. check x = Some y \<Longrightarrow> heroPosition y = heroPosition x
     \<and> heroDirection y = heroDirection x \<and> enemies y = enemies x
     \<and> collectedIds y = collectedIds x \<and> defeatedEnemies y = defeatedEnemies x"
    and step: "(if 0 < heroHealth t \<and> \<not> heroDead t then
        (let adjacentEnemies = getAdjacentEnemies t
         in if adjacentEnemies = [] then Some t
            else (let s' = attackPass adjacentEnemies t
                  in if heroHealth s' \<le> 0 then Some s' else check s'))
      else Some t) = Some t'"
  let ?u = "attackPass (getAdjacentEnemies t) t"
  have "t' = t \<or> t' = ?u \<or> check ?u = Some t'"
  proof (cases "0 < heroHealth t \<and> \<not> heroDead t \<and> getAdjacentEnemies t \<noteq> []")
    case False
    with step have "Some t = Some t'"
      by (cases "0 < heroHealth t \<and> \<not> heroDead t") (simp_all add: Let_def)
    then show ?thesis by simp
  next
    case True
    with step show ?thesis by (cases "heroHealth ?u \<le> 0") (simp_all add: Let_def)
  qed
  then consider "t' = t" | "t' = ?u" | "check ?u = Some t'"
    by blast
  then show "heroPosition t' = heroPosition t
     \<and> heroDirection t' = heroDirection t \<and> enemies t' = enemies t
     \<and> collectedIds t' = collectedIds t \<and> defeatedEnemies t' = defeatedEnemies t"
  proof cases
    case 1
    then show ?thesis by simp
  next
    case 2
    then show ?thesis by (simp add: attackPass_frame)
  next
    case 3
    from IH [OF 3] show ?thesis by (simp add: attackPass_frame)
  qed
qed


text \<open>
  C1. On level 2-1 the sequence move_forward, attack, attack, move_forward does not reach the
  attacks: the first move puts the hero next to the orc, the adjacency check repeats the
  orc's attack until the hero's health is 0, and the run ends with the hero dead at (1, 1),
  the orc untouched at health 40, and the defeat message as the only result.
\<close>

theorem orc_scenario_hero_dies:
  "executeCommands level_2_1 [''move_forward'', ''attack'', ''attack'', ''move_forward'']
     (init level_2_1)
   = Some \<lparr>heroPosition = \<lparr>posx = 1, posy = 1\<rparr>, heroDirection = East,
       collectedIds = {}, isExecuting = False, heroHealth = 0,
       heroMaxHealth = 100, heroDead = True,
       enemies = [(''orc1'', \<lparr>health = 40, maxHealth = 40, damage = 10,
                              position = \<lparr>posx = 2, posy = 1\<rparr>\<rparr>)],
       defeatedEnemies = {},
       completions = [(False, msg_hero_fallen)]\<rparr>"
  by (simp add: level_2_1_def run_defs)

text \<open>
  C10, as amended. The loop ends whenever every live adjacent enemy has damage at least 1,
  each pass then lowering the hero's health strictly. With damages that are not negative,
  the loop never ends exactly when the hero is alive, some live enemy is adjacent and every
  live adjacent enemy has damage 0: one adjacent enemy of positive damage is enough to end it.
\<close>

theorem checkAdjacentEnemies_termination:
  "((\<forall>e\<in>set (getAdjacentEnemies s). 1 \<le> damage (snd e))
      \<longrightarrow> (\<exists>s'. checkAdjacentEnemies s = Some s'))
   \<and> ((\<forall>e\<in>set (getAdjacentEnemies s). 1 \<le> damage (snd e))
        \<and> getAdjacentEnemies s \<noteq> [] \<and> 0 < heroHealth s
      \<longrightarrow> heroHealth (attackPass (getAdjacentEnemies s) s) < heroHealth s)
   \<and> ((\<forall>e\<in>set (getAdjacentEnemies s). 0 \<le> damage (snd e))
      \<longrightarrow> (checkAdjacentEnemies s = None) =
           (0 < heroHealth s \<and> \<not> heroDead s \<and> getAdjacentEnemies s \<noteq> []
            \<and> (\<forall>e\<in>set (getAdjacentEnemies s). damage (snd e) = 0)))"
proof (intro conjI impI)
  assume all1: "\<forall>e\<in>set (getAdjacentEnemies s). 1 \<le> damage (snd e)"
  then have nonneg: "\<forall>e\<in>set (getAdjacentEnemies s). 0 \<le> damage (snd e)"
    by auto
  from all1 have "getAdjacentEnemies s = []
      \<or> (\<exists>e\<in>set (getAdjacentEnemies s). 1 \<le> damage (snd e))"
    by (cases "getAdjacentEnemies s") auto
  with nonneg show "\<exists>s'. checkAdjacentEnemies s = Some s'"
    by (rule checkAdjacentEnemies_terminates)
next
  assume a: "(\<forall>e\<in>set (getAdjacentEnemies s). 1 \<le> damage (snd e))
        \<and> getAdjacentEnemies s \<noteq> [] \<and> 0 < heroHealth s"
  then have "\<forall>e\<in>set (getAdjacentEnemies s). 0 \<le> damage (snd e)"
    by auto
  moreover from a have "\<exists>e\<in>set (getAdjacentEnemies s). 1 \<le> damage (snd e)"
    by (cases "getAdjacentEnemies s") auto
  ultimately show "heroHealth (attackPass (getAdjacentEnemies s) s) < heroHealth s"
    using a by (intro attackPass_health_less) simp_all
next
  assume nonneg: "\<forall>e\<in>set (getAdjacentEnemies s). 0 \<le> damage (snd e)"
  show "(checkAdjacentEnemies s = None) =
           (0 < heroHealth s \<and> \<not> heroDead s \<and> getAdjacentEnemies s \<noteq> []
            \<and> (\<forall>e\<in>set (getAdjacentEnemies s). damage (snd e) = 0))"
  proof
    assume none: "checkAdjacentEnemies s = None"
    have alive: "0 < heroHealth s \<and> \<not> heroDead s"
    proof (rule ccontr)
      assume "\<not> (0 < heroHealth s \<and> \<not> heroDead s)"
      then have "checkAdjacentEnemies s = Some s"
        by (subst checkAdjacentEnemies.simps) auto
      with none show False by simp
    qed
    have no_progress: "\<not> (getAdjacentEnemies s = []
        \<or> (\<exists>e\<in>set (getAdjacentEnemies s). 1 \<le> damage (snd e)))"
      using checkAdjacentEnemies_terminates [OF nonneg] none by auto
    then have "\<forall>e\<in>set (getAdjacentEnemies s). damage (snd e) = 0"
      using nonneg by fastforce
    with alive no_progress
    show "0 < heroHealth s \<and> \<not> heroDead s \<and> getAdjacentEnemies s \<noteq> []
            \<and> (\<forall>e\<in>set (getAdjacentEnemies s). damage (snd e) = 0)"
      by simp
  next
    assume "0 < heroHealth s \<and> \<not> heroDead s \<and> getAdjacentEnemies s \<noteq> []
            \<and> (\<forall>e\<in>set (getAdjacentEnemies s). damage (snd e) = 0)"
    then have "stuck s"
      by (simp add: stuck_def list_all_iff)
    then show "checkAdjacentEnemies s = None"
      using checkAdjacentEnemies_not_stuck [of s] by (cases "checkAdjacentEnemies s") auto
  qed
qed

text \<open>
  Witness: one adjacent enemy of damage 10 (the loop ends, the first pass lowers the health
  from 100 to 90), and one adjacent enemy of damage 0 (the loop never ends).
\<close>

theorem checkAdjacentEnemies_termination_witness:
  "(\<exists>s'. checkAdjacentEnemies (sceneWith [(''a'', enemyAt 1 0 10)]) = Some s')
   \<and> heroHealth (attackPass (getAdjacentEnemies (sceneWith [(''a'', enemyAt 1 0 10)]))
        (sceneWith [(''a'', enemyAt 1 0 10)])) < 100
   \<and> checkAdjacentEnemies (sceneWith [(''z'', enemyAt 1 0 0)]) = None"
  using checkAdjacentEnemies_termination [of "sceneWith [(''a'', enemyAt 1 0 10)]"]
    checkAdjacentEnemies_termination [of "sceneWith [(''z'', enemyAt 1 0 0)]"]
  by (simp add: sceneWith_def enemyAt_def getAdjacentEnemies_def getPositionInDirection_def liveAt_def)

text \<open>
  The claim as written fails: with an enemy of damage 0 to the north and one of damage 10 to
  the east, a live adjacent enemy has damage 0 and yet the loop ends, after ten passes, with
  the hero dead.
\<close>

theorem checkAdjacentEnemies_zero_damage_counterexample:
  "(\<exists>e\<in>set (getAdjacentEnemies (sceneWith [(''z'', enemyAt 1 0 0), (''a'', enemyAt 2 1 10)])).
      damage (snd e) = 0)
   \<and> map_option (\<lambda>s. (heroHealth s, heroDead s))
        (checkAdjacentEnemies (sceneWith [(''z'', enemyAt 1 0 0), (''a'', enemyAt 2 1 10)]))
      = Some (0, True)"
  by (simp add: sceneWith_def enemyAt_def run_defs)

section \<open>The interpreter\<close>

text \<open>
  C3. An ogre of damage 100 stands in front of the hero. After one attack the counter-attack
  leaves the hero's health at 0, but \<^verbatim>\<open>heroDead\<close> stays false: when attack was the last
  command the goals are evaluated and their verdict is the result; when commands remain the
  loop returns without any call of \<^verbatim>\<open>onComplete\<close>. In neither run is the defeat message
  delivered.
\<close>

theorem counter_attack_death_not_reported:
  "map_option (\<lambda>s. (heroHealth s, heroDead s, completions s))
     (executeCommands ogre_level [''attack''] (init ogre_level))
   = Some (0, False,
       [(False, ''Quest incomplete:'' @ [CHR 0x0A] @ cross_mark @ '' Defeat the mighty ogre''
          @ [CHR 0x0A] @ cross_mark @ '' Reach the goal'')])
   \<and> map_option (\<lambda>s. (heroHealth s, heroDead s, completions s))
     (executeCommands ogre_level [''attack'', ''attack'', ''attack'', ''move_forward'']
        (init ogre_level))
   = Some (0, False, [])"
  by (simp add: ogre_level_def run_defs)

text \<open>
  C4. Level 1-1 with a second goal of type survive, run with the level's solution: the hero
  reaches the beacon alive, the survive goal is reported as not met and the verdict is
  failure.
\<close>

theorem survive_goal_never_met:
  "map_option (\<lambda>s. (heroDead s, heroHealth s, completions s))
     (executeCommands (level_1_1\<lparr>goals := goals level_1_1 @ [survive_goal]\<rparr>)
        [''move_forward'', ''move_forward'', ''move_forward''] (init level_1_1))
   = Some (False, 100,
       [(False, ''Quest incomplete:'' @ [CHR 0x0A] @ check_mark @ '' Reach the landing beacon''
          @ [CHR 0x0A] @ cross_mark @ '' Survive'')])"
  by (simp add: level_1_1_def survive_goal_def run_defs)

subsection \<open>The step limit\<close>










subsection \<open>Unknown commands\<close>

text \<open>
  C9. A command that is none of the six case labels leaves the scene as it is, and the loop
  goes on with the next command (a hero that is already dead ends the loop as for any
  command).
\<close>

theorem unknown_command_ignored:
  assumes "command \<notin> set knownCommands"
  shows "executeCommand L command s = Some s
    \<and> commandLoop L (command # rest) s =
        (if heroDead s \<or> heroHealth s \<le> 0 then Some (s\<lparr>isExecuting := False\<rparr>)
         else commandLoop L rest s)"
  using assms by (simp add: executeCommand_def knownCommands_def)

text \<open>Witness: the command \<^verbatim>\<open>collect\<close>, which is not a case label, on level 1-3.\<close>

theorem unknown_command_ignored_witness:
  "''collect'' \<notin> set knownCommands
   \<and> executeCommand level_1_3 ''collect'' (init level_1_3) = Some (init level_1_3)
   \<and> commandLoop level_1_3 [''collect'', ''turn_left''] (init level_1_3)
      = commandLoop level_1_3 [''turn_left''] (init level_1_3)"
  using unknown_command_ignored [of "''collect''" level_1_3 "init level_1_3" "[''turn_left'']"]
  by (simp add: knownCommands_def init_def)

section \<open>Movement and collision\<close>

lemma Position_eq_iff: "(p = q) = (posx p = posx q \<and> posy p = posy q)" for p q :: Position
  by (cases p, cases q) simp

lemma liveAt_iff: "liveAt pos e = (position (snd e) = pos \<and> 0 < health (snd e))"
  by (auto simp: liveAt_def Position_eq_iff)

lemma isValidPosition_iff: "isValidPosition L s pos = (\<not> moveBlocked L s pos)"
  by (auto simp: isValidPosition_def moveBlocked_def list_ex_iff liveAt_iff)

lemma getPositionInDirection_target:
  "getPositionInDirection (heroPosition s) (heroDirection s) steps = moveTarget s steps"
  by (simp add: getPositionInDirection_def moveTarget_def Let_def)

lemma moveHero_blocked:
  "moveBlocked L s (moveTarget s steps) \<Longrightarrow> moveHero L steps s = Some (s, False)"
  by (simp add: moveHero_def getPositionInDirection_target isValidPosition_iff)

lemma moveHero_free:
  "\<not> moveBlocked L s (moveTarget s steps) \<Longrightarrow>
     moveHero L steps s =
       map_option (\<lambda>s'. (s', True)) (checkAdjacentEnemies (s\<lparr>heroPosition := moveTarget s steps\<rparr>))"
  by (simp add: moveHero_def getPositionInDirection_target isValidPosition_iff)

lemma moveHero_free_result:
  assumes "\<not> moveBlocked L s (moveTarget s steps)" and "moveHero L steps s = Some (s', b)"
  shows "b \<and> heroPosition s' = moveTarget s steps \<and> enemies s' = enemies s
     \<and> collectedIds s' = collectedIds s \<and> defeatedEnemies s' = defeatedEnemies s
     \<and> heroDirection s' = heroDirection s"
proof -
  from assms obtain t where t: "checkAdjacentEnemies (s\<lparr>heroPosition := moveTarget s steps\<rparr>) = Some t"
    and eq: "s' = t" "b = True"
    by (auto simp: moveHero_free)
  from checkAdjacentEnemies_frame [OF t] eq show ?thesis by simp
qed



subsection \<open>The position invariant\<close>

lemma isValidPosition_enemies:
  "enemies s' = enemies s \<Longrightarrow> isValidPosition L s' pos = isValidPosition L s pos"
  by (simp add: isValidPosition_def)

lemma mapSet_set: "set (mapSet k v m) \<subseteq> insert (k, v) (set m)"
  by (induction m) (auto split: if_splits)

lemma valid_cong:
  "enemies s' = enemies s \<Longrightarrow> heroPosition s' = heroPosition s
   \<Longrightarrow> isValidPosition L s (heroPosition s) \<Longrightarrow> isValidPosition L s' (heroPosition s')"
  by (simp add: isValidPosition_enemies [of s' s])

lemma attackEnemy_position: "heroPosition (attackEnemy s) = heroPosition s"
  by (simp add: attackEnemy_def Let_def split: option.split prod.split)

lemma attackEnemy_live:
  assumes "list_ex (liveAt pos) (enemies (attackEnemy s))"
  shows "list_ex (liveAt pos) (enemies s)"
proof (cases "getEnemyAhead s")
  case None
  with assms show ?thesis by (simp add: attackEnemy_def)
next
  case (Some e)
  obtain k d where e: "e = (k, d)" by (cases e)
  let ?d' = "d\<lparr>health := health d - 20\<rparr>"
  from Some e have mem: "(k, d) \<in> set (enemies s)"
    by (auto simp: getEnemyAhead_def find_Some_iff)
  have en: "enemies (attackEnemy s) = mapSet k ?d' (enemies s)"
    using Some e by (simp add: attackEnemy_def Let_def)
  from assms obtain x where x: "x \<in> set (mapSet k ?d' (enemies s))" "liveAt pos x"
    by (auto simp: en list_ex_iff)
  from x(1) mapSet_set [of k ?d' "enemies s"] have "x = (k, ?d') \<or> x \<in> set (enemies s)"
    by auto
  then show ?thesis
  proof
    assume "x = (k, ?d')"
    with x(2) have "liveAt pos (k, d)" by (simp add: liveAt_def)
    with mem show ?thesis by (auto simp: list_ex_iff)
  next
    assume "x \<in> set (enemies s)"
    with x(2) show ?thesis by (auto simp: list_ex_iff)
  qed
qed

lemma isValidPosition_attackEnemy:
  "isValidPosition L s pos \<Longrightarrow> isValidPosition L (attackEnemy s) pos"
  using attackEnemy_live [of pos s] by (auto simp: isValidPosition_iff moveBlocked_def list_ex_iff liveAt_iff)

lemma executeCommand_valid:
  assumes "isValidPosition L s (heroPosition s)" and "executeCommand L c s = Some s'"
  shows "isValidPosition L s' (heroPosition s')"
proof -
  have move: "isValidPosition L s' (heroPosition s')"
    if m: "map_option fst (moveHero L k s) = Some s'" for k
  proof (cases "moveBlocked L s (moveTarget s k)")
    case True
    with m assms(1) show ?thesis by (simp add: moveHero_blocked)
  next
    case False
    from m obtain b where r: "moveHero L k s = Some (s', b)" by auto
    from moveHero_free_result [OF False r]
    have "heroPosition s' = moveTarget s k" "enemies s' = enemies s" by simp_all
    with False show ?thesis
      by (simp add: isValidPosition_iff [symmetric] isValidPosition_enemies [of s' s])
  qed
  consider "c = ''move_forward''" | "c = ''move_backward''" | "c = ''turn_left''" | "c = ''turn_right''"
    | "c = ''collect_sample''" | "c = ''attack''" | "c \<notin> set knownCommands"
    by (auto simp: knownCommands_def)
  then show ?thesis
  proof cases
    case 1
    with assms(2) show ?thesis by (intro move [of 1]) (simp add: executeCommand_def)
  next
    case 2
    with assms(2) show ?thesis by (intro move [of "- 1"]) (simp add: executeCommand_def)
  next
    case 3
    with assms(2) have "s' = turnHero TurnLeft s" by (simp add: executeCommand_def)
    with assms(1) show ?thesis by (intro valid_cong [of s' s]) (simp_all add: turnHero_def)
  next
    case 4
    with assms(2) have "s' = turnHero TurnRight s" by (simp add: executeCommand_def)
    with assms(1) show ?thesis by (intro valid_cong [of s' s]) (simp_all add: turnHero_def)
  next
    case 5
    with assms(2) have "s' = fst (collectGem L s)" by (simp add: executeCommand_def)
    with assms(1) show ?thesis
      by (intro valid_cong [of s' s]) (simp_all add: collectGem_def split: option.split)
  next
    case 6
    with assms(2) have "s' = attackEnemy s" by (simp add: executeCommand_def)
    with assms(1) show ?thesis
      by (simp add: attackEnemy_position isValidPosition_attackEnemy)
  next
    case 7
    with assms show ?thesis by (simp add: executeCommand_def knownCommands_def)
  qed
qed

lemma checkWinCondition_frame:
  "heroPosition (checkWinCondition L s) = heroPosition s"
  "enemies (checkWinCondition L s) = enemies s"
  "collectedIds (checkWinCondition L s) = collectedIds s"
  "defeatedEnemies (checkWinCondition L s) = defeatedEnemies s"
  "heroHealth (checkWinCondition L s) = heroHealth s"
  by (simp_all add: checkWinCondition_def onComplete_def split: prod.split)

lemma commandLoop_valid:
  "isValidPosition L s (heroPosition s) \<Longrightarrow> commandLoop L cmds s = Some s'
   \<Longrightarrow> isValidPosition L s' (heroPosition s')"
proof (induction cmds arbitrary: s)
  case Nil
  show ?case
  proof (cases "heroDead s")
    case True
    with Nil show ?thesis by simp
  next
    case False
    with Nil have "s' = checkWinCondition L (s\<lparr>isExecuting := False\<rparr>)" by simp
    with Nil(1) show ?thesis
      by (intro valid_cong [of s' s]) (simp_all add: checkWinCondition_frame)
  qed
next
  case (Cons c cmds)
  show ?case
  proof (cases "heroDead s \<or> heroHealth s \<le> 0")
    case True
    with Cons.prems(2) have "s' = s\<lparr>isExecuting := False\<rparr>" by auto
    with Cons.prems(1) show ?thesis by (intro valid_cong [of s' s]) simp_all
  next
    case False
    with Cons.prems obtain t where t: "executeCommand L c s = Some t" "commandLoop L cmds t = Some s'"
      by (cases "executeCommand L c s") auto
    from executeCommand_valid [OF Cons.prems(1) t(1)] t(2) show ?thesis
      by (rule Cons.IH)
  qed
qed

lemma drawEnemies_entries:
  "e \<in> set (foldl (\<lambda>m enemy. createEnemy enemy m) m es) \<Longrightarrow>
     e \<in> set m \<or> (\<exists>en\<in>set es. snd e = \<lparr>health = enemy_health en, maxHealth = enemy_health en,
        damage = enemy_damage en, position = enemy_position en\<rparr>)"
proof (induction es arbitrary: m)
  case Nil
  then show ?case by simp
next
  case (Cons en es)
  let ?d = "\<lparr>health = enemy_health en, maxHealth = enemy_health en,
        damage = enemy_damage en, position = enemy_position en\<rparr>"
  from Cons.prems have "e \<in> set (foldl (\<lambda>m enemy. createEnemy enemy m) (mapSet (enemy_id en) ?d m) es)"
    by (simp add: createEnemy_def)
  from Cons.IH [OF this] consider "e \<in> set (mapSet (enemy_id en) ?d m)"
    | "\<exists>en\<in>set es. snd e = \<lparr>health = enemy_health en, maxHealth = enemy_health en,
        damage = enemy_damage en, position = enemy_position en\<rparr>"
    by blast
  then show ?case
  proof cases
    case 1
    with mapSet_set [of "enemy_id en" ?d m] have "e = (enemy_id en, ?d) \<or> e \<in> set m" by auto
    then show ?thesis by auto
  next
    case 2
    then show ?thesis by auto
  qed
qed

lemma validHeroPosition_iff: "validHeroPosition L s = isValidPosition L s (heroPosition s)"
  by (auto simp: validHeroPosition_def isValidPosition_iff moveBlocked_def list_all_iff)

lemma attackPass_valid:
  "isValidPosition L s (heroPosition s) \<Longrightarrow>
     isValidPosition L (attackPass es s) (heroPosition (attackPass es s))"
  by (rule valid_cong) (simp_all add: attackPass_frame)

lemma resetGame_valid:
  assumes "0 \<le> posx (startPosition L)" and "posx (startPosition L) < gridWidth L"
      and "0 \<le> posy (startPosition L)" and "posy (startPosition L) < gridHeight L"
      and "cellTypeAt (grid L) (startPosition L) \<noteq> Some Wall"
      and "\<forall>en\<in>set (level_enemies L). \<not> (enemy_position en = startPosition L \<and> 0 < enemy_health en)"
  shows "isValidPosition L (resetGame L s0) (heroPosition (resetGame L s0))"
proof -
  have no_enemy: "\<not> list_ex (liveAt (startPosition L)) (drawEnemies L [])"
  proof
    assume "list_ex (liveAt (startPosition L)) (drawEnemies L [])"
    then obtain e where e: "e \<in> set (drawEnemies L [])" "liveAt (startPosition L) e"
      by (auto simp: list_ex_iff)
    from drawEnemies_entries [OF e(1) [unfolded drawEnemies_def]] obtain en
      where "en \<in> set (level_enemies L)"
        and "snd e = \<lparr>health = enemy_health en, maxHealth = enemy_health en,
          damage = enemy_damage en, position = enemy_position en\<rparr>"
      by auto
    with e(2) assms(6) show False by (auto simp: liveAt_iff)
  qed
  with assms(1-5) show ?thesis
    by (simp add: isValidPosition_def resetGame_def)
qed

text \<open>
  C6. Let the level's start position be inside the grid, not a wall and not the position of
  a live enemy of the level. Then the invariant holds when a run starts, every command that
  returns keeps it, the scene in which a move has just set the new position satisfies it,
  every pass of enemy attacks keeps it, and so it holds after a run of any command sequence.
\<close>

theorem hero_position_invariant:
  assumes "0 \<le> posx (startPosition L)" and "posx (startPosition L) < gridWidth L"
      and "0 \<le> posy (startPosition L)" and "posy (startPosition L) < gridHeight L"
      and "cellTypeAt (grid L) (startPosition L) \<noteq> Some Wall"
      and "\<forall>en\<in>set (level_enemies L). \<not> (enemy_position en = startPosition L \<and> 0 < enemy_health en)"
  shows "validHeroPosition L (resetGame L s0)
     \<and> (\<forall>command s s'. validHeroPosition L s \<and> executeCommand L command s = Some s'
           \<longrightarrow> validHeroPosition L s')
     \<and> (\<forall>steps s. \<not> moveBlocked L s (moveTarget s steps)
           \<longrightarrow> validHeroPosition L (s\<lparr>heroPosition := moveTarget s steps\<rparr>))
     \<and> (\<forall>es s. validHeroPosition L s \<longrightarrow> validHeroPosition L (attackPass es s))
     \<and> (\<forall>commands s. \<not> isExecuting s0 \<and> executeCommands L commands s0 = Some s
           \<longrightarrow> validHeroPosition L s)"
proof (intro conjI allI impI)
  have "isValidPosition L (resetGame L s0) (heroPosition (resetGame L s0))"
    using assms by (rule resetGame_valid)
  then show "validHeroPosition L (resetGame L s0)"
    by (simp add: validHeroPosition_iff)
next
  fix command s s'
  assume a: "validHeroPosition L s \<and> executeCommand L command s = Some s'"
  then have "isValidPosition L s (heroPosition s)" and "executeCommand L command s = Some s'"
    by (simp_all add: validHeroPosition_iff)
  then have "isValidPosition L s' (heroPosition s')"
    by (rule executeCommand_valid)
  then show "validHeroPosition L s'"
    by (simp add: validHeroPosition_iff)
next
  fix steps s
  assume "\<not> moveBlocked L s (moveTarget s steps)"
  then show "validHeroPosition L (s\<lparr>heroPosition := moveTarget s steps\<rparr>)"
    by (simp add: validHeroPosition_iff isValidPosition_iff [symmetric]
        isValidPosition_enemies [of "s\<lparr>heroPosition := moveTarget s steps\<rparr>" s])
next
  fix es s
  assume "validHeroPosition L s"
  then have "isValidPosition L s (heroPosition s)"
    by (simp add: validHeroPosition_iff)
  then have "isValidPosition L (attackPass es s) (heroPosition (attackPass es s))"
    by (rule attackPass_valid)
  then show "validHeroPosition L (attackPass es s)"
    by (simp add: validHeroPosition_iff)
next
  fix commands s
  assume run: "\<not> isExecuting s0 \<and> executeCommands L commands s0 = Some s"
  let ?r = "(resetGame L s0)\<lparr>isExecuting := True\<rparr>"
  have "isValidPosition L (resetGame L s0) (heroPosition (resetGame L s0))"
    using assms by (rule resetGame_valid)
  then have "isValidPosition L ?r (heroPosition ?r)"
    by (simp add: isValidPosition_enemies [of ?r "resetGame L s0"])
  moreover from run have "\<not> isExecuting s0" and "executeCommands L commands s0 = Some s"
    by simp_all
  then have "commandLoop L commands ?r = Some s"
    by (simp add: executeCommands_def)
  ultimately have "isValidPosition L s (heroPosition s)"
    by (rule commandLoop_valid)
  then show "validHeroPosition L s"
    by (simp add: validHeroPosition_iff)
qed

text \<open>
  Witness: level 1-2, moving up to the wall and turning north around it, and level 2-1 with
  its solution, where the hero ends next to the orc.
\<close>

theorem hero_position_invariant_witness:
  "(\<exists>s. executeCommands level_1_2 [''move_forward'', ''move_forward'', ''turn_left'', ''move_forward'']
          (init level_1_2) = Some s
        \<and> heroPosition s = \<lparr>posx = 1, posy = 1\<rparr>
        \<and> validHeroPosition level_1_2 s)
   \<and> (\<exists>s. executeCommands level_2_1 [''move_forward'', ''attack'', ''attack'', ''move_forward'']
          (init level_2_1) = Some s
        \<and> heroPosition s = \<lparr>posx = 1, posy = 1\<rparr>
        \<and> map (\<lambda>e. position (snd e)) (enemies s) = [\<lparr>posx = 2, posy = 1\<rparr>]
        \<and> validHeroPosition level_2_1 s)"
proof -
  obtain s where run: "executeCommands level_1_2
      [''move_forward'', ''move_forward'', ''turn_left'', ''move_forward''] (init level_1_2) = Some s"
    and pos: "heroPosition s = \<lparr>posx = 1, posy = 1\<rparr>"
    by (simp add: level_1_2_def run_defs)
  have start: "0 \<le> posx (startPosition level_1_2)" "posx (startPosition level_1_2) < gridWidth level_1_2"
    "0 \<le> posy (startPosition level_1_2)" "posy (startPosition level_1_2) < gridHeight level_1_2"
    "cellTypeAt (grid level_1_2) (startPosition level_1_2) \<noteq> Some Wall"
    "\<forall>en\<in>set (level_enemies level_1_2).
       \<not> (enemy_position en = startPosition level_1_2 \<and> 0 < enemy_health en)"
    by (simp_all add: level_1_2_def cellTypeAt_def)
  have idle: "\<not> isExecuting (init level_1_2)"
    by (simp add: init_def)
  note final = hero_position_invariant [OF start, of "init level_1_2", THEN conjunct2,
      THEN conjunct2, THEN conjunct2, THEN conjunct2, rule_format]
  from conjI [OF idle run] have inv: "validHeroPosition level_1_2 s"
    by (rule final)
  obtain u where run': "executeCommands level_2_1
      [''move_forward'', ''attack'', ''attack'', ''move_forward''] (init level_2_1) = Some u"
    and pos': "heroPosition u = \<lparr>posx = 1, posy = 1\<rparr>"
    and en': "map (\<lambda>e. position (snd e)) (enemies u) = [\<lparr>posx = 2, posy = 1\<rparr>]"
    by (simp add: level_2_1_def run_defs)
  have start': "0 \<le> posx (startPosition level_2_1)" "posx (startPosition level_2_1) < gridWidth level_2_1"
    "0 \<le> posy (startPosition level_2_1)" "posy (startPosition level_2_1) < gridHeight level_2_1"
    "cellTypeAt (grid level_2_1) (startPosition level_2_1) \<noteq> Some Wall"
    "\<forall>en\<in>set (level_enemies level_2_1).
       \<not> (enemy_position en = startPosition level_2_1 \<and> 0 < enemy_health en)"
    by (simp_all add: level_2_1_def cellTypeAt_def)
  have idle': "\<not> isExecuting (init level_2_1)"
    by (simp add: init_def)
  note final' = hero_position_invariant [OF start', of "init level_2_1", THEN conjunct2,
      THEN conjunct2, THEN conjunct2, THEN conjunct2, rule_format]
  from conjI [OF idle' run'] have inv': "validHeroPosition level_2_1 u"
    by (rule final')
  from run pos inv have first: "\<exists>s. executeCommands level_1_2
          [''move_forward'', ''move_forward'', ''turn_left'', ''move_forward''] (init level_1_2) = Some s
        \<and> heroPosition s = \<lparr>posx = 1, posy = 1\<rparr>
        \<and> validHeroPosition level_1_2 s"
    by (intro exI [of _ s] conjI)
  from run' pos' en' inv' have second: "\<exists>s. executeCommands level_2_1
          [''move_forward'', ''attack'', ''attack'', ''move_forward''] (init level_2_1) = Some s
        \<and> heroPosition s = \<lparr>posx = 1, posy = 1\<rparr>
        \<and> map (\<lambda>e. position (snd e)) (enemies s) = [\<lparr>posx = 2, posy = 1\<rparr>]
        \<and> validHeroPosition level_2_1 s"
    by (intro exI [of _ u] conjI)
  from first second show ?thesis by (rule conjI)
qed

section \<open>The order of retaliation\<close>

lemma count_list_app: "count_list (xs @ ys) e = count_list xs e + count_list ys e"
  by (induction xs) simp_all

lemma count_list_filter: "count_list (filter P xs) e = (if P e then count_list xs e else 0)"
  by (induction xs) auto

lemma liveAt_directions:
  "liveAt (getPositionInDirection p North 1) e =
     (0 < health (snd e) \<and> posx (position (snd e)) = posx p \<and> posy (position (snd e)) = posy p - 1)"
  "liveAt (getPositionInDirection p East 1) e =
     (0 < health (snd e) \<and> posx (position (snd e)) = posx p + 1 \<and> posy (position (snd e)) = posy p)"
  "liveAt (getPositionInDirection p South 1) e =
     (0 < health (snd e) \<and> posx (position (snd e)) = posx p \<and> posy (position (snd e)) = posy p + 1)"
  "liveAt (getPositionInDirection p West 1) e =
     (0 < health (snd e) \<and> posx (position (snd e)) = posx p - 1 \<and> posy (position (snd e)) = posy p)"
  by (auto simp: liveAt_def getPositionInDirection_def Let_def)

lemma orthogonallyAdjacent_cases:
  "orthogonallyAdjacent p q =
     ((posx q = posx p \<and> posy q = posy p - 1) \<or> (posx q = posx p + 1 \<and> posy q = posy p)
      \<or> (posx q = posx p \<and> posy q = posy p + 1) \<or> (posx q = posx p - 1 \<and> posy q = posy p))"
  unfolding orthogonallyAdjacent_def by arith

lemma count_getAdjacentEnemies:
  "count_list (getAdjacentEnemies s) e = count_list (adjacentInStoredOrder s) e"
  by (auto simp: getAdjacentEnemies_concat adjacentInStoredOrder_def count_list_app count_list_filter
      liveAt_directions orthogonallyAdjacent_cases)

lemma attackPass_dead: "heroHealth s \<le> 0 \<Longrightarrow> attackPass es s = s"
  by (cases es) simp_all

lemma attackPass_append:
  "attackPass (es @ es') s =
     (if heroHealth (attackPass es s) \<le> 0 then attackPass es s else attackPass es' (attackPass es s))"
proof (induction es arbitrary: s)
  case Nil
  show ?case by (simp add: attackPass_dead)
next
  case (Cons e es)
  show ?case
  proof (cases "heroHealth s \<le> 0")
    case True
    then show ?thesis by simp
  next
    case False
    then show ?thesis by (simp add: Cons.IH)
  qed
qed

lemma attackPass_survived:
  "\<forall>e\<in>set es. 0 \<le> damage (snd e) \<Longrightarrow> 0 < heroHealth (attackPass es s)
   \<Longrightarrow> heroHealth (attackPass es s) = heroHealth s - sum_list (map (\<lambda>e. damage (snd e)) es)"
proof (induction es arbitrary: s)
  case Nil
  show ?case by simp
next
  case (Cons e es)
  show ?case
  proof (cases "heroHealth s \<le> 0")
    case True
    with Cons.prems(2) show ?thesis by simp
  next
    case False
    with Cons.prems have "0 < heroHealth (attackPass es (performEnemyAttack (fst e) (snd e) s))"
      by simp
    with Cons.prems(1)
    have "heroHealth (attackPass es (performEnemyAttack (fst e) (snd e) s))
        = heroHealth (performEnemyAttack (fst e) (snd e) s) - sum_list (map (\<lambda>e. damage (snd e)) es)"
      by (intro Cons.IH) simp_all
    with False show ?thesis by (simp add: performEnemyAttack_frame)
  qed
qed

text \<open>
  C7, as amended. The enemies that attack in a pass are the live enemies on the four cells
  next to the hero, taken by direction (north, east, south, west) and, within one
  direction, in the order of the enemy collection; they are the same enemies, each as often,
  as the collection's live orthogonally adjacent ones. A pass stops at the first moment the
  hero's health is not positive, so that the enemies after that one do not attack; in a pass
  that the hero survives every enemy has hit once. The loop repeats the pass while the hero
  is alive and the list is not empty.
\<close>

theorem getAdjacentEnemies_order:
  "getAdjacentEnemies s =
     concat (map (\<lambda>dir. filter (liveAt (getPositionInDirection (heroPosition s) dir 1)) (enemies s))
       [North, East, South, West])
   \<and> (\<forall>e. count_list (getAdjacentEnemies s) e = count_list (adjacentInStoredOrder s) e)
   \<and> attackPass (es @ es') s =
       (if heroHealth (attackPass es s) \<le> 0 then attackPass es s
        else attackPass es' (attackPass es s))
   \<and> ((\<forall>e\<in>set es. 0 \<le> damage (snd e)) \<and> 0 < heroHealth (attackPass es s) \<longrightarrow>
        heroHealth (attackPass es s) = heroHealth s - sum_list (map (\<lambda>e. damage (snd e)) es))
   \<and> checkAdjacentEnemies s =
       (if 0 < heroHealth s \<and> \<not> heroDead s \<and> getAdjacentEnemies s \<noteq> [] then
          (if heroHealth (attackPass (getAdjacentEnemies s) s) \<le> 0
           then Some (attackPass (getAdjacentEnemies s) s)
           else checkAdjacentEnemies (attackPass (getAdjacentEnemies s) s))
        else Some s)"
proof (intro conjI allI impI)
  show "getAdjacentEnemies s =
     concat (map (\<lambda>dir. filter (liveAt (getPositionInDirection (heroPosition s) dir 1)) (enemies s))
       [North, East, South, West])"
    by (rule getAdjacentEnemies_concat)
next
  fix e
  show "count_list (getAdjacentEnemies s) e = count_list (adjacentInStoredOrder s) e"
    by (rule count_getAdjacentEnemies)
next
  show "attackPass (es @ es') s =
       (if heroHealth (attackPass es s) \<le> 0 then attackPass es s
        else attackPass es' (attackPass es s))"
    by (rule attackPass_append)
next
  assume "(\<forall>e\<in>set es. 0 \<le> damage (snd e)) \<and> 0 < heroHealth (attackPass es s)"
  then show "heroHealth (attackPass es s) = heroHealth s - sum_list (map (\<lambda>e. damage (snd e)) es)"
    by (intro attackPass_survived) simp_all
next
  show "checkAdjacentEnemies s =
       (if 0 < heroHealth s \<and> \<not> heroDead s \<and> getAdjacentEnemies s \<noteq> [] then
          (if heroHealth (attackPass (getAdjacentEnemies s) s) \<le> 0
           then Some (attackPass (getAdjacentEnemies s) s)
           else checkAdjacentEnemies (attackPass (getAdjacentEnemies s) s))
        else Some s)"
    by (subst checkAdjacentEnemies.simps) (simp add: Let_def)
qed

lemma twoEnemies_adjacent:
  "getAdjacentEnemies twoEnemies = [(''b'', enemyAt 1 0 10), (''a'', enemyAt 0 1 100)]"
  by (simp add: twoEnemies_def sceneWith_def enemyAt_def getAdjacentEnemies_def
      getPositionInDirection_def liveAt_def)

lemma twoEnemies_stored:
  "adjacentInStoredOrder twoEnemies = [(''a'', enemyAt 0 1 100), (''b'', enemyAt 1 0 10)]"
  by (simp add: twoEnemies_def sceneWith_def enemyAt_def adjacentInStoredOrder_def
      orthogonallyAdjacent_def)

text \<open>
  Witness: the enemy to the north attacks first although it is stored second; its hit leaves
  health 90; the pass of both enemies kills the hero, and no further attack follows.
\<close>

theorem getAdjacentEnemies_order_witness:
  "map fst (getAdjacentEnemies twoEnemies) = [''b'', ''a'']
   \<and> heroHealth (attackPass [(''b'', enemyAt 1 0 10)] twoEnemies) = 90
   \<and> attackPass (getAdjacentEnemies twoEnemies @ getAdjacentEnemies twoEnemies) twoEnemies
       = attackPass (getAdjacentEnemies twoEnemies) twoEnemies"
proof -
  let ?b = "(''b'', enemyAt 1 0 10)"
  let ?adj = "getAdjacentEnemies twoEnemies"
  have prem: "(\<forall>e\<in>set [?b]. 0 \<le> damage (snd e)) \<and> 0 < heroHealth (attackPass [?b] twoEnemies)"
    by (simp add: twoEnemies_def sceneWith_def enemyAt_def performEnemyAttack_def Let_def)
  from getAdjacentEnemies_order [of twoEnemies "[?b]" "[]"] prem
  have "heroHealth (attackPass [?b] twoEnemies)
      = heroHealth twoEnemies - sum_list (map (\<lambda>e. damage (snd e)) [?b])"
    by blast
  also have "\<dots> = 90"
    by (simp add: twoEnemies_def sceneWith_def enemyAt_def)
  finally have one: "heroHealth (attackPass [?b] twoEnemies) = 90" .
  have dead: "heroHealth (attackPass ?adj twoEnemies) \<le> 0"
    unfolding twoEnemies_adjacent
    by (simp add: twoEnemies_def sceneWith_def enemyAt_def performEnemyAttack_def handleHeroDeath_def
        onComplete_def Let_def)
  from getAdjacentEnemies_order [of twoEnemies ?adj ?adj]
  have "attackPass (?adj @ ?adj) twoEnemies =
       (if heroHealth (attackPass ?adj twoEnemies) \<le> 0 then attackPass ?adj twoEnemies
        else attackPass ?adj (attackPass ?adj twoEnemies))"
    by blast
  with dead have twice: "attackPass (?adj @ ?adj) twoEnemies = attackPass ?adj twoEnemies"
    by (simp only: if_True)
  have "map fst ?adj = [''b'', ''a'']"
    by (simp add: twoEnemies_adjacent)
  with one twice show ?thesis by blast
qed

text \<open>
  The claim as written fails: in stored order the enemy of damage 100 would strike first and
  end the pass with the hero's health at 0; the code lets the northern enemy of damage 10
  strike first and the hero ends with health -10.
\<close>

theorem stored_order_counterexample:
  "map fst (enemies twoEnemies) = [''a'', ''b'']
   \<and> map fst (adjacentInStoredOrder twoEnemies) = [''a'', ''b'']
   \<and> map fst (getAdjacentEnemies twoEnemies) = [''b'', ''a'']
   \<and> getAdjacentEnemies twoEnemies \<noteq> adjacentInStoredOrder twoEnemies
   \<and> heroHealth (attackPass (adjacentInStoredOrder twoEnemies) twoEnemies) = 0
   \<and> map_option heroHealth (checkAdjacentEnemies twoEnemies) = Some (- 10)"
proof -
  have "heroHealth (attackPass (adjacentInStoredOrder twoEnemies) twoEnemies) = 0"
    unfolding twoEnemies_stored
    by (simp add: twoEnemies_def sceneWith_def enemyAt_def performEnemyAttack_def handleHeroDeath_def
        onComplete_def Let_def)
  moreover have "map_option heroHealth (checkAdjacentEnemies twoEnemies) = Some (- 10)"
    by (simp add: twoEnemies_def sceneWith_def enemyAt_def run_defs)
  moreover have "map fst (enemies twoEnemies) = [''a'', ''b'']"
    by (simp add: twoEnemies_def sceneWith_def)
  ultimately show ?thesis
    by (simp add: twoEnemies_adjacent twoEnemies_stored)
qed

section \<open>Collecting\<close>

















section \<open>Runs of any length\<close>

subsection \<open>The loop is execution in order\<close>




subsection \<open>The results of a run\<close>














end
